theory Spec2Isabelle
  imports Complex_Main "HOL-Library.Multiset"
begin

section \<open>JavaScript values used by the address widget\<close>

text \<open>
  The widget exists in two variants: \<^verbatim>\<open>src/components/Autocomplete.js\<close> (the
  locality-biased one, written for Indian addresses) and \<^verbatim>\<open>unnamed/part_000\<close> (the
  global one).  Both are embedded; functions that differ take the variant as an argument.

  Strings are lists of code units; \<^typ>\<open>char\<close> has 256 values, so the model covers
  strings of the Latin-1 range.  An optional property of a JSON object is a
  \<^typ>\<open>string option\<close>, with \<open>None\<close> for \<^verbatim>\<open>undefined\<close>.
\<close>

datatype variant = Autocomplete_js | Part_000

text \<open>Truthiness of an optional string: \<^verbatim>\<open>undefined\<close> and \<^verbatim>\<open>''\<close> are falsy.\<close>

fun truthy :: "string option \<Rightarrow> bool" where
  "truthy None = False"
| "truthy (Some s) = (s \<noteq> [])"

text \<open>\<^verbatim>\<open>a || b\<close>: the left operand when it is truthy, else the right one, whatever it is.\<close>

definition or_js :: "string option \<Rightarrow> string option \<Rightarrow> string option" where
  "or_js a b = (if truthy a then a else b)"

text \<open>
  A Number.  Finite values are kept as the exact real they denote; rounding to binary64 is
  not modelled beyond the overflow to an infinity in \<open>parseFloat\<close> below.
\<close>

datatype number = Finite real | PosInfinity | NegInfinity | NaN

fun isFinite :: "number \<Rightarrow> bool" where
  "isFinite (Finite r) = True"
| "isFinite PosInfinity = False"
| "isFinite NegInfinity = False"
| "isFinite NaN = False"

subsection \<open>parseFloat\<close>

text \<open>
  \<^verbatim>\<open>parseFloat\<close> skips leading white space and reads the longest prefix that is a
  \<^verbatim>\<open>StrDecimalLiteral\<close>: an optional sign, then \<^verbatim>\<open>Infinity\<close> or digits with an
  optional fraction and an optional exponent.  With no such prefix the result is NaN.
\<close>

definition is_whitespace :: "char \<Rightarrow> bool" where
  "is_whitespace c = (of_char c \<in> {9, 10, 11, 12, 13, 32, 160 :: nat})"

definition is_digit :: "char \<Rightarrow> bool" where
  "is_digit c = (48 \<le> (of_char c :: nat) \<and> (of_char c :: nat) \<le> 57)"

definition digit_value :: "char \<Rightarrow> nat" where
  "digit_value c = of_char c - 48"

definition digits_value :: "string \<Rightarrow> nat" where
  "digits_value ds = foldl (\<lambda>acc c. 10 * acc + digit_value c) 0 ds"

text \<open>The exponent part \<^verbatim>\<open>e[+-]digits\<close>; it belongs to the prefix only when complete.\<close>

definition exponent_part :: "string \<Rightarrow> int" where
  "exponent_part r =
     (case r of
        [] \<Rightarrow> 0
      | c # r1 \<Rightarrow>
          if c = CHR ''e'' \<or> c = CHR ''E'' then
            (case r1 of
               [] \<Rightarrow> 0
             | s # r2 \<Rightarrow>
                 if s = CHR ''-'' then
                   (if takeWhile is_digit r2 = [] then 0
                    else - int (digits_value (takeWhile is_digit r2)))
                 else if s = CHR ''+'' then int (digits_value (takeWhile is_digit r2))
                 else int (digits_value (takeWhile is_digit r1)))
          else 0)"

definition scale10 :: "nat \<Rightarrow> int \<Rightarrow> real" where
  "scale10 m e = (if 0 \<le> e then real m * 10 ^ nat e else real m / 10 ^ nat (- e))"

text \<open>
  The Number value of a non-negative real: values from \<open>2^1024 - 2^970\<close> on round to
  infinity.
\<close>

definition number_value :: "bool \<Rightarrow> real \<Rightarrow> number" where
  "number_value neg v =
     (if 2 ^ 1024 - 2 ^ 970 \<le> v then (if neg then NegInfinity else PosInfinity)
      else Finite (if neg then - v else v))"

definition unsigned_literal :: "bool \<Rightarrow> string \<Rightarrow> number" where
  "unsigned_literal neg u =
     (if take 8 u = ''Infinity'' then (if neg then NegInfinity else PosInfinity)
      else
        let ip = takeWhile is_digit u;
            r1 = dropWhile is_digit u;
            fp = (case r1 of [] \<Rightarrow> [] | c # r \<Rightarrow> if c = CHR ''.'' then takeWhile is_digit r else []);
            r2 = (case r1 of [] \<Rightarrow> [] | c # r \<Rightarrow> if c = CHR ''.'' then dropWhile is_digit r else r1)
        in if ip = [] \<and> fp = [] then NaN
           else number_value neg
                  (scale10 (digits_value (ip @ fp)) (exponent_part r2 - int (length fp))))"

definition parseFloat :: "string \<Rightarrow> number" where
  "parseFloat s =
     (case dropWhile is_whitespace s of
        [] \<Rightarrow> NaN
      | c # r \<Rightarrow>
          if c = CHR ''-'' then unsigned_literal True r
          else if c = CHR ''+'' then unsigned_literal False r
          else unsigned_literal False (c # r))"

section \<open>Provider records and canonical locations\<close>

text \<open>
  One element of the provider's JSON array (\<open>item\<close>) and its \<^verbatim>\<open>address\<close> object.  The
  display string and the coordinates are strings the provider always sends; the other
  properties may be missing.  \<^verbatim>\<open>place_id\<close> is a number, falsy when it is 0.
\<close>

record address_details =
  house_number :: "string option"
  road :: "string option"
  neighbourhood :: "string option"
  suburb :: "string option"
  city_district :: "string option"
  city :: "string option"
  town :: "string option"
  village :: "string option"
  state_district :: "string option"
  state :: "string option"
  country :: "string option"
  country_code :: "string option"
  postcode :: "string option"

record item =
  item_place_id :: "nat option"
  item_display_name :: string
  item_lat :: string
  item_lon :: string
  item_type :: "string option"
  item_class :: "string option"
  item_importance :: "real option"
  item_address :: "address_details option"

text \<open>\<^verbatim>\<open>item.address || {}\<close>: an object all of whose properties are undefined.\<close>

definition empty_address :: address_details where
  "empty_address =
     \<lparr>house_number = None, road = None, neighbourhood = None, suburb = None,
      city_district = None, city = None, town = None, village = None,
      state_district = None, state = None, country = None, country_code = None,
      postcode = None\<rparr>"

text \<open>
  The object built for each item.  The address of \<^verbatim>\<open>Autocomplete.js\<close> has no
  \<^verbatim>\<open>country_code\<close> property, so reading it gives \<open>None\<close> there.
\<close>

record location_address =
  addr_house_number :: "string option"
  addr_road :: "string option"
  addr_neighbourhood :: "string option"
  addr_suburb :: "string option"
  addr_city_district :: "string option"
  addr_city :: "string option"
  addr_state_district :: "string option"
  addr_state :: "string option"
  addr_country :: "string option"
  addr_country_code :: "string option"
  addr_postcode :: "string option"

datatype ident = Place_id nat | Synthetic string

record location =
  loc_id :: ident
  display_name :: string
  clean_display_name :: string
  lat :: number
  lon :: number
  loc_type :: string
  loc_class :: string
  importance :: real
  address :: location_address

subsection \<open>The label\<close>

text \<open>\<^verbatim>\<open>if (v) parts.push(v)\<close>\<close>

fun push_if :: "string option \<Rightarrow> string list \<Rightarrow> string list" where
  "push_if None parts = parts"
| "push_if (Some s) parts = (if s \<noteq> [] then parts @ [s] else parts)"

text \<open>\<^verbatim>\<open>parts.join(sep)\<close>\<close>

fun join :: "string \<Rightarrow> string list \<Rightarrow> string" where
  "join sep [] = []"
| "join sep [p] = p"
| "join sep (p # q # ps) = p @ sep @ join sep (q # ps)"

text \<open>
  The statements that fill \<^verbatim>\<open>parts\<close>, in the order of the source.  The state district is
  compared with \<^verbatim>\<open>address.city || address.town\<close>.  \<^verbatim>\<open>Autocomplete.js\<close> does not push the
  country and pushes the postcode behind the prefix \<^verbatim>\<open>PIN: \<close>.
\<close>

definition address_parts :: "variant \<Rightarrow> address_details \<Rightarrow> string list" where
  "address_parts v a =
     (let parts = push_if (house_number a) [];
          parts = push_if (road a) parts;
          parts = push_if (neighbourhood a) parts;
          parts = push_if (suburb a) parts;
          parts = push_if (city_district a) parts;
          parts = (if truthy (or_js (or_js (city a) (town a)) (village a))
                   then push_if (or_js (or_js (city a) (town a)) (village a)) parts
                   else parts);
          parts = (if truthy (state_district a) \<and> state_district a \<noteq> or_js (city a) (town a)
                   then push_if (state_district a) parts
                   else parts);
          parts = push_if (state a) parts
      in case v of
           Part_000 \<Rightarrow> push_if (postcode a) (push_if (country a) parts)
         | Autocomplete_js \<Rightarrow>
             (case postcode a of
                None \<Rightarrow> parts
              | Some p \<Rightarrow> if p \<noteq> [] then parts @ [''PIN: '' @ p] else parts))"

text \<open>\<^verbatim>\<open>const address = item.address || {}\<close>\<close>

definition the_address :: "item \<Rightarrow> address_details" where
  "the_address it = (case item_address it of None \<Rightarrow> empty_address | Some a \<Rightarrow> a)"

definition cleanDisplayName :: "variant \<Rightarrow> item \<Rightarrow> string" where
  "cleanDisplayName v it =
     (let parts = address_parts v (the_address it)
      in if length parts > 0 then join '', '' parts else item_display_name it)"

subsection \<open>The canonical record\<close>

text \<open>The decimal digits of an index, for the template literal \<^verbatim>\<open>`location_${index}`\<close>.\<close>

fun digits_of :: "nat \<Rightarrow> string" where
  "digits_of n =
     (if n < 10 then [char_of (48 + n)] else digits_of (n div 10) @ [char_of (48 + n mod 10)])"

declare digits_of.simps [simp del]

definition format_address :: "variant \<Rightarrow> address_details \<Rightarrow> location_address" where
  "format_address v a =
     \<lparr>addr_house_number = house_number a,
      addr_road = road a,
      addr_neighbourhood = neighbourhood a,
      addr_suburb = suburb a,
      addr_city_district = city_district a,
      addr_city = or_js (or_js (city a) (town a)) (village a),
      addr_state_district = state_district a,
      addr_state = state a,
      addr_country = (case v of Autocomplete_js \<Rightarrow> or_js (country a) (Some ''India'')
                               | Part_000 \<Rightarrow> country a),
      addr_country_code = (case v of Autocomplete_js \<Rightarrow> None | Part_000 \<Rightarrow> country_code a),
      addr_postcode = postcode a\<rparr>"

text \<open>The callback of \<^verbatim>\<open>data.map((item, index) => ...)\<close>.\<close>

definition format_item :: "variant \<Rightarrow> item \<Rightarrow> nat \<Rightarrow> location" where
  "format_item v it index =
     \<lparr>loc_id = (case item_place_id it of
                  None \<Rightarrow> Synthetic (''location_'' @ digits_of index)
                | Some p \<Rightarrow> if p \<noteq> 0 then Place_id p
                            else Synthetic (''location_'' @ digits_of index)),
      display_name = item_display_name it,
      clean_display_name = cleanDisplayName v it,
      lat = parseFloat (item_lat it),
      lon = parseFloat (item_lon it),
      loc_type = (case item_type it of None \<Rightarrow> ''location''
                  | Some t \<Rightarrow> if t \<noteq> [] then t else ''location''),
      loc_class = (case item_class it of None \<Rightarrow> [] | Some c \<Rightarrow> c),
      importance = (case item_importance it of None \<Rightarrow> 0 | Some i \<Rightarrow> i),
      address = format_address v (the_address it)\<rparr>"

definition formattedSuggestions :: "variant \<Rightarrow> item list \<Rightarrow> location list" where
  "formattedSuggestions v data = map (\<lambda>(index, it). format_item v it index) (enumerate 0 data)"

section \<open>Ranking\<close>

subsection \<open>String operations of the comparator\<close>

text \<open>\<^verbatim>\<open>toLowerCase\<close> on the Latin-1 range: A to Z, and the accented capitals except the
  multiplication sign, move up by 32.\<close>

definition lower_char :: "char \<Rightarrow> char" where
  "lower_char c =
     (let n = (of_char c :: nat)
      in if (65 \<le> n \<and> n \<le> 90) \<or> (192 \<le> n \<and> n \<le> 214) \<or> (216 \<le> n \<and> n \<le> 222)
         then char_of (n + 32) else c)"

definition toLowerCase :: "string \<Rightarrow> string" where
  "toLowerCase s = map lower_char s"

text \<open>\<^verbatim>\<open>s.includes(t)\<close>: \<open>t\<close> occurs in \<open>s\<close> as a contiguous block; the empty string occurs
  everywhere.\<close>

fun starts_with :: "string \<Rightarrow> string \<Rightarrow> bool" where
  "starts_with s [] = True"
| "starts_with [] (c # t) = False"
| "starts_with (d # s) (c # t) = (d = c \<and> starts_with s t)"

fun includes_str :: "string \<Rightarrow> string \<Rightarrow> bool" where
  "includes_str [] t = (t = [])"
| "includes_str (c # s) t = (starts_with (c # s) t \<or> includes_str s t)"

text \<open>\<^verbatim>\<open>s.trim()\<close>\<close>

definition trim :: "string \<Rightarrow> string" where
  "trim s = rev (dropWhile is_whitespace (rev (dropWhile is_whitespace s)))"

text \<open>\<^verbatim>\<open>v || ''\<close>\<close>

fun or_empty :: "string option \<Rightarrow> string" where
  "or_empty None = []"
| "or_empty (Some s) = s"

subsection \<open>The two comparators\<close>

text \<open>
  A comparator returns a number; an importance is a finite number, so the difference of
  two is kept as a real.  \<^verbatim>\<open>(x.importance || 0)\<close> is \<open>importance x\<close>, since the only falsy
  importance of a formatted item is 0.
\<close>

definition compare_importance :: "location \<Rightarrow> location \<Rightarrow> real" where
  "compare_importance a b = importance b - importance a"

definition compare_locality :: "string \<Rightarrow> location \<Rightarrow> location \<Rightarrow> real" where
  "compare_locality searchQuery a b =
     (let queryLower = toLowerCase searchQuery;
          aCity = toLowerCase (or_empty (addr_city (address a)));
          bCity = toLowerCase (or_empty (addr_city (address b)))
      in if includes_str aCity queryLower then - 1
         else if includes_str bCity queryLower then 1
         else importance b - importance a)"

text \<open>The test the comparator makes of each of its arguments.\<close>

definition city_matches :: "string \<Rightarrow> location \<Rightarrow> bool" where
  "city_matches searchQuery a =
     includes_str (toLowerCase (or_empty (addr_city (address a)))) (toLowerCase searchQuery)"

definition comparator :: "variant \<Rightarrow> string \<Rightarrow> location \<Rightarrow> location \<Rightarrow> real" where
  "comparator v searchQuery =
     (case v of Autocomplete_js \<Rightarrow> compare_locality searchQuery
              | Part_000 \<Rightarrow> compare_importance)"

subsection \<open>Array.prototype.sort\<close>

text \<open>
  \<^verbatim>\<open>sort\<close> is stable, and for a comparator that orders the elements consistently every
  engine returns the same array.  For any other comparator the language leaves the order
  to the engine.  The model is an insertion sort: each element in turn moves left past the
  elements of the sorted prefix it has to precede.  Engines differ in which of two
  elements they hand to the comparator first, and the model has both conventions:
  \<open>Earlier_first\<close> asks \<^verbatim>\<open>comparefn(prev, item) > 0\<close>, the element already placed coming
  first; \<open>Later_first\<close> asks \<^verbatim>\<open>comparefn(item, prev) < 0\<close>, the element being inserted
  coming first, which is the order of V8.  For a consistent comparator the two agree.
\<close>

datatype engine = Earlier_first | Later_first

definition moves_before :: "engine \<Rightarrow> ('a \<Rightarrow> 'a \<Rightarrow> real) \<Rightarrow> 'a \<Rightarrow> 'a \<Rightarrow> bool" where
  "moves_before e comparefn item prev =
     (case e of Earlier_first \<Rightarrow> comparefn prev item > 0
              | Later_first \<Rightarrow> comparefn item prev < 0)"

text \<open>The sorted prefix is held last element first, so that the scan from the right is a
  recursion from the head.\<close>

fun insert_item :: "('a \<Rightarrow> 'a \<Rightarrow> bool) \<Rightarrow> 'a \<Rightarrow> 'a list \<Rightarrow> 'a list" where
  "insert_item precedes item [] = [item]"
| "insert_item precedes item (prev # rest) =
     (if precedes item prev then prev # insert_item precedes item rest else item # prev # rest)"

definition sort_js :: "engine \<Rightarrow> ('a \<Rightarrow> 'a \<Rightarrow> real) \<Rightarrow> 'a list \<Rightarrow> 'a list" where
  "sort_js e comparefn xs =
     rev (foldl (\<lambda>placed item. insert_item (moves_before e comparefn) item placed) [] xs)"

definition sortedSuggestions :: "variant \<Rightarrow> engine \<Rightarrow> string \<Rightarrow> location list \<Rightarrow> location list" where
  "sortedSuggestions v e searchQuery formatted = sort_js e (comparator v searchQuery) formatted"

text \<open>Descending importance, the order the ranking is meant to produce.\<close>

fun descending :: "location list \<Rightarrow> bool" where
  "descending [] = True"
| "descending [a] = True"
| "descending (a # b # rest) = (importance b \<le> importance a \<and> descending (b # rest))"

section \<open>The component state and searchAddresses\<close>

text \<open>
  The six \<^verbatim>\<open>useState\<close> cells of the component, and two things the runtime keeps for it:
  the query the effect on \<^verbatim>\<open>[query, debouncedSearch]\<close> last ran for, and the list of
  \<^verbatim>\<open>fetch\<close> calls issued so far (the \<^verbatim>\<open>q\<close> parameter of each, oldest first).
\<close>

record widget =
  query :: string
  suggestions :: "location list"
  loading :: bool
  selectedLocation :: "location option"
  showSuggestions :: bool
  error :: string
  effect_query :: string
  fetches :: "string list"

text \<open>The state at mount, after the effect has run once on the empty query.\<close>

definition initial_widget :: widget where
  "initial_widget =
     \<lparr>query = [], suggestions = [], loading = False, selectedLocation = None,
      showSuggestions = False, error = [], effect_query = [], fetches = []\<rparr>"

text \<open>
  What \<^verbatim>\<open>await fetch(...)\<close> and \<^verbatim>\<open>await response.json()\<close> can give: the fetch is
  rejected, or there is a response with a status and a body.  The body is not JSON, or
  an array of items, or a value on which \<^verbatim>\<open>data?.length > 0\<close> holds but which has no
  \<^verbatim>\<open>map\<close> (a string that is not empty), or any other value (\<^verbatim>\<open>null\<close>, a number, an object
  without a length).
\<close>

datatype body = Malformed | Json_array "item list" | Json_text | Json_other

datatype fetch_outcome = Network_failure | Response nat body

definition response_ok :: "nat \<Rightarrow> bool" where
  "response_ok status = (200 \<le> status \<and> status \<le> 299)"

text \<open>
  \<^verbatim>\<open>searchAddresses\<close> up to its first \<^verbatim>\<open>await\<close>: the length check, and otherwise the two
  state updates and the call of \<^verbatim>\<open>fetch\<close>.
\<close>

definition searchAddresses :: "string \<Rightarrow> widget \<Rightarrow> widget" where
  "searchAddresses searchQuery w =
     (if length searchQuery < 2 then w\<lparr>suggestions := [], showSuggestions := False\<rparr>
      else w\<lparr>loading := True, error := [], fetches := fetches w @ [searchQuery]\<rparr>)"

text \<open>The \<^verbatim>\<open>catch\<close> block followed by \<^verbatim>\<open>finally\<close>.\<close>

definition search_failed :: "widget \<Rightarrow> widget" where
  "search_failed w =
     w\<lparr>error := ''Failed to fetch locations. Please check your internet connection.'',
       suggestions := [], showSuggestions := False, loading := False\<rparr>"

text \<open>
  The rest of \<^verbatim>\<open>searchAddresses\<close>, run when the fetch of the call for \<open>searchQuery\<close>
  settles.  It writes the state as it then is; nothing relates the response to the calls
  made since.
\<close>

definition searchAddresses_resume ::
    "variant \<Rightarrow> engine \<Rightarrow> string \<Rightarrow> fetch_outcome \<Rightarrow> widget \<Rightarrow> widget" where
  "searchAddresses_resume v e searchQuery outcome w =
     (case outcome of
        Network_failure \<Rightarrow> search_failed w
      | Response status b \<Rightarrow>
          if \<not> response_ok status then search_failed w
          else
            (case b of
               Malformed \<Rightarrow> search_failed w
             | Json_array data \<Rightarrow>
                 if length data > 0 then
                   w\<lparr>suggestions := sortedSuggestions v e searchQuery (formattedSuggestions v data),
                     showSuggestions := True, loading := False\<rparr>
                 else
                   w\<lparr>suggestions := [], showSuggestions := False,
                     error := ''No locations found. Try a different search term.'',
                     loading := False\<rparr>
             | Json_text \<Rightarrow> search_failed w
             | Json_other \<Rightarrow>
                 w\<lparr>suggestions := [], showSuggestions := False,
                   error := ''No locations found. Try a different search term.'',
                   loading := False\<rparr>))"

section \<open>debounce\<close>

text \<open>
  The closure variable \<^verbatim>\<open>timeout\<close> of the one debounced function the component keeps,
  and the timers of the runtime: each pending timer has its id, the time it is due, and
  the arguments its \<^verbatim>\<open>later\<close> closed over.
\<close>

record 'a debouncer =
  timeout :: "nat option"
  pending :: "(nat \<times> nat \<times> 'a) list"
  next_id :: nat

definition clearTimeout :: "nat option \<Rightarrow> 'a debouncer \<Rightarrow> 'a debouncer" where
  "clearTimeout t d = d\<lparr>pending := filter (\<lambda>(i, due, args). Some i \<noteq> t) (pending d)\<rparr>"

text \<open>\<^verbatim>\<open>executedFunction(...args)\<close>, called at time \<open>now\<close>.\<close>

definition executedFunction :: "nat \<Rightarrow> nat \<Rightarrow> 'a \<Rightarrow> 'a debouncer \<Rightarrow> 'a debouncer" where
  "executedFunction wait now args d =
     (let d = clearTimeout (timeout d) d
      in d\<lparr>timeout := Some (next_id d),
           pending := pending d @ [(next_id d, now + wait, args)],
           next_id := Suc (next_id d)\<rparr>)"

text \<open>\<^verbatim>\<open>later\<close>: the timer's callback, which calls the wrapped function \<open>func\<close>.\<close>

definition later :: "('a \<Rightarrow> 's \<Rightarrow> 's) \<Rightarrow> 'a \<Rightarrow> 'a debouncer \<times> 's \<Rightarrow> 'a debouncer \<times> 's" where
  "later func args x = (clearTimeout (timeout (fst x)) (fst x), func args (snd x))"

text \<open>The pending timer that is due first; of two due together, the one set first.\<close>

fun earliest :: "(nat \<times> nat \<times> 'a) list \<Rightarrow> (nat \<times> nat \<times> 'a) option" where
  "earliest [] = None"
| "earliest (t # ts) =
     (case earliest ts of
        None \<Rightarrow> Some t
      | Some u \<Rightarrow> if fst (snd u) < fst (snd t) then Some u else Some t)"

definition fire :: "('a \<Rightarrow> 's \<Rightarrow> 's) \<Rightarrow> nat \<times> nat \<times> 'a \<Rightarrow> 'a debouncer \<times> 's \<Rightarrow> 'a debouncer \<times> 's" where
  "fire func t x =
     later func (snd (snd t)) ((fst x)\<lparr>pending := filter (\<lambda>u. fst u \<noteq> fst t) (pending (fst x))\<rparr>, snd x)"

text \<open>The event loop up to time \<open>T\<close>: the timers due by then run, in the order they are due.\<close>

function run_timers :: "('a \<Rightarrow> 's \<Rightarrow> 's) \<Rightarrow> nat \<Rightarrow> 'a debouncer \<times> 's \<Rightarrow> 'a debouncer \<times> 's" where
  "run_timers func T x =
     (case earliest (filter (\<lambda>t. fst (snd t) \<le> T) (pending (fst x))) of
        None \<Rightarrow> x
      | Some t \<Rightarrow> run_timers func T (fire func t x))"
  by pat_completeness auto

termination run_timers
proof (relation "measure (\<lambda>(func, T, x). length (pending (fst x)))")
  show "wf (measure (\<lambda>(func :: 'a \<Rightarrow> 's \<Rightarrow> 's, T :: nat, x :: 'a debouncer \<times> 's).
      length (pending (fst x))))"
    by simp
next
  fix func :: "'a \<Rightarrow> 's \<Rightarrow> 's" and T :: nat and x :: "'a debouncer \<times> 's" and t
  assume due: "earliest (filter (\<lambda>t. fst (snd t) \<le> T) (pending (fst x))) = Some t"
  have mem: "earliest ts = Some u \<Longrightarrow> u \<in> set ts" for ts :: "(nat \<times> nat \<times> 'a) list" and u
    by (induction ts arbitrary: u) (auto split: option.splits if_splits)
  from mem [OF due] have "t \<in> set (pending (fst x))" by simp
  then have "length (filter (\<lambda>u. fst u \<noteq> fst t) (pending (fst x))) < length (pending (fst x))"
    by (intro length_filter_less [of t]) auto
  moreover have "length (pending (fst (fire func t x)))
      \<le> length (filter (\<lambda>u. fst u \<noteq> fst t) (pending (fst x)))"
    by (simp add: fire_def later_def clearTimeout_def del: filter_filter)
  ultimately show "((func, T, fire func t x), (func, T, x))
      \<in> measure (\<lambda>(func, T, x). length (pending (fst x)))"
    by simp
qed

declare run_timers.simps [simp del]

text \<open>A run of calls of the debounced function, each at its time, the timers due before a
  call running first.\<close>

fun run_calls ::
    "nat \<Rightarrow> ('a \<Rightarrow> 's \<Rightarrow> 's) \<Rightarrow> (nat \<times> 'a) list \<Rightarrow> 'a debouncer \<times> 's \<Rightarrow> 'a debouncer \<times> 's" where
  "run_calls wait func [] x = x"
| "run_calls wait func (c # cs) x =
     run_calls wait func cs
       (executedFunction wait (fst c) (snd c) (fst (run_timers func (fst c) x)),
        snd (run_timers func (fst c) x))"

text \<open>The calls come in a burst: each within \<open>wait\<close> of the one before, and none earlier
  than the one before.\<close>

fun rapid :: "nat \<Rightarrow> (nat \<times> 'a) list \<Rightarrow> bool" where
  "rapid wait [] = True"
| "rapid wait [c] = True"
| "rapid wait (c # c' # cs) =
     (fst c \<le> fst c' \<and> fst c' < fst c + wait \<and> rapid wait (c' # cs))"

text \<open>\<^verbatim>\<open>debouncedSearch = debounce((searchQuery) => searchAddresses(searchQuery), 400)\<close>\<close>

definition debouncedSearch :: "nat \<Rightarrow> string \<Rightarrow> string debouncer \<Rightarrow> string debouncer" where
  "debouncedSearch now searchQuery d = executedFunction 400 now searchQuery d"

text \<open>A run of calls of \<^verbatim>\<open>debouncedSearch\<close>, each at its time; the timers due before a call
  run first, and a timer that runs calls \<^verbatim>\<open>searchAddresses\<close>.\<close>

fun run_searches ::
    "(nat \<times> string) list \<Rightarrow> string debouncer \<times> widget \<Rightarrow> string debouncer \<times> widget" where
  "run_searches [] x = x"
| "run_searches (c # cs) x =
     run_searches cs
       (debouncedSearch (fst c) (snd c) (fst (run_timers searchAddresses (fst c) x)),
        snd (run_timers searchAddresses (fst c) x))"

definition fresh_debouncer :: "'a debouncer" where
  "fresh_debouncer = \<lparr>timeout = None, pending = [], next_id = 0\<rparr>"

text \<open>The debouncer holds exactly one timer, the one \<^verbatim>\<open>timeout\<close> names, due at \<open>due\<close> for
  the arguments \<open>a\<close>.\<close>

definition armed :: "'a debouncer \<Rightarrow> nat \<Rightarrow> 'a \<Rightarrow> bool" where
  "armed d due a =
     (case pending d of [t] \<Rightarrow> timeout d = Some (fst t) \<and> snd t = (due, a) | _ \<Rightarrow> False)"

section \<open>Handlers, the query effect and the event loop\<close>

definition handleSuggestionClick :: "location \<Rightarrow> widget \<Rightarrow> widget" where
  "handleSuggestionClick suggestion w =
     w\<lparr>query := clean_display_name suggestion, selectedLocation := Some suggestion,
       showSuggestions := False, error := []\<rparr>"

definition handleInputChange :: "string \<Rightarrow> widget \<Rightarrow> widget" where
  "handleInputChange val w =
     (if val = [] then
        w\<lparr>query := val, selectedLocation := None, suggestions := [],
          showSuggestions := False, error := []\<rparr>
      else w\<lparr>query := val\<rparr>)"

definition handleInputFocus :: "widget \<Rightarrow> widget" where
  "handleInputFocus w = (if length (suggestions w) > 0 then w\<lparr>showSuggestions := True\<rparr> else w)"

definition clearInput :: "widget \<Rightarrow> widget" where
  "clearInput w =
     w\<lparr>query := [], selectedLocation := None, suggestions := [],
       showSuggestions := False, error := []\<rparr>"

text \<open>The body of the effect on \<^verbatim>\<open>[query, debouncedSearch]\<close>, run at time \<open>now\<close>.\<close>

definition query_effect :: "nat \<Rightarrow> string debouncer \<times> widget \<Rightarrow> string debouncer \<times> widget" where
  "query_effect now x =
     (if trim (query (snd x)) \<noteq> [] then (debouncedSearch now (trim (query (snd x))) (fst x), snd x)
      else (fst x, (snd x)\<lparr>suggestions := [], showSuggestions := False, error := []\<rparr>))"

text \<open>
  After the state updates of a handler the component renders again, and the effect runs
  when \<^verbatim>\<open>query\<close> is not the string it last ran for (\<^verbatim>\<open>debouncedSearch\<close> never changes).
\<close>

definition render :: "nat \<Rightarrow> string debouncer \<times> widget \<Rightarrow> string debouncer \<times> widget" where
  "render now x =
     (if query (snd x) \<noteq> effect_query (snd x)
      then query_effect now (fst x, (snd x)\<lparr>effect_query := query (snd x)\<rparr>)
      else x)"

text \<open>
  What can happen to the component: the user types, picks a suggestion, clears or
  focuses the input, time passes, and the fetch with a given position in the list of
  fetches settles.
\<close>

datatype event =
    Input_change string
  | Suggestion_click location
  | Clear_input
  | Input_focus
  | Tick
  | Fetch_settled nat fetch_outcome

definition handle :: "variant \<Rightarrow> engine \<Rightarrow> event \<Rightarrow> widget \<Rightarrow> widget" where
  "handle v e ev w =
     (case ev of
        Input_change val \<Rightarrow> handleInputChange val w
      | Suggestion_click suggestion \<Rightarrow> handleSuggestionClick suggestion w
      | Clear_input \<Rightarrow> clearInput w
      | Input_focus \<Rightarrow> handleInputFocus w
      | Tick \<Rightarrow> w
      | Fetch_settled k outcome \<Rightarrow>
          if k < length (fetches w) then searchAddresses_resume v e (fetches w ! k) outcome w
          else w)"

text \<open>One event at time \<open>now\<close>: the timers due by then run first (each calls
  \<^verbatim>\<open>searchAddresses\<close>), then the handler, then the render.\<close>

definition step ::
    "variant \<Rightarrow> engine \<Rightarrow> nat \<times> event \<Rightarrow> string debouncer \<times> widget \<Rightarrow> string debouncer \<times> widget" where
  "step v e tev x =
     (let y = run_timers searchAddresses (fst tev) x
      in render (fst tev) (fst y, handle v e (snd tev) (snd y)))"

definition run_events ::
    "variant \<Rightarrow> engine \<Rightarrow> (nat \<times> event) list \<Rightarrow> string debouncer \<times> widget \<Rightarrow> string debouncer \<times> widget" where
  "run_events v e evs x = foldl (\<lambda>y tev. step v e tev y) x evs"

section \<open>The specification's words\<close>

text \<open>
  The label as the specification describes it: house number, road, neighbourhood, suburb,
  city district, city (first of city, town, village), state district unless it is the
  chosen city, state, country, postal code, each only when present and not empty.
\<close>

fun part_of :: "string option \<Rightarrow> string list" where
  "part_of None = []"
| "part_of (Some s) = (if s \<noteq> [] then [s] else [])"

definition spec_parts :: "address_details \<Rightarrow> string list" where
  "spec_parts a =
     (let chosen = or_js (or_js (city a) (town a)) (village a)
      in concat (map part_of
           [house_number a, road a, neighbourhood a, suburb a, city_district a, chosen,
            (if truthy chosen \<and> state_district a = chosen then None else state_district a),
            state a, country a, postcode a]))"

text \<open>
  The same list for \<^verbatim>\<open>Autocomplete.js\<close>, which leaves the country out and writes the postal
  code behind \<^verbatim>\<open>PIN: \<close>: the specification's list over the address changed so.
\<close>

definition pin_address :: "address_details \<Rightarrow> address_details" where
  "pin_address a =
     a\<lparr>country := None,
       postcode := (case postcode a of None \<Rightarrow> None
                    | Some p \<Rightarrow> if p \<noteq> [] then Some (''PIN: '' @ p) else None)\<rparr>"

text \<open>The state \<open>Idle\<close> of the specification: no query, no candidates, nothing selected, no
  error.\<close>

definition idle :: "widget \<Rightarrow> bool" where
  "idle w = (query w = [] \<and> suggestions w = [] \<and> selectedLocation w = None \<and> error w = [])"

section \<open>Example inputs\<close>

text \<open>The address of the specification's example: a road, a city and a country.\<close>

definition main_st_address :: address_details where
  "main_st_address =
     empty_address\<lparr>road := Some ''Main St'', city := Some ''Springfield'', country := Some ''X''\<rparr>"

definition main_st_item :: item where
  "main_st_item =
     \<lparr>item_place_id = Some 7, item_display_name = ''Main Street, Springfield'',
      item_lat = ''39.8'', item_lon = ''-89.6'', item_type = None, item_class = None,
      item_importance = Some 0.5, item_address = Some main_st_address\<rparr>"

text \<open>An item with no address object, no place id, and a latitude that is not a number.\<close>

definition nameless_item :: item where
  "nameless_item =
     \<lparr>item_place_id = None, item_display_name = ''Somewhere'',
      item_lat = ''not known'', item_lon = ''77.2'', item_type = None, item_class = None,
      item_importance = None, item_address = None\<rparr>"

text \<open>An item that has a place id, a city and an importance.\<close>

definition city_item :: "nat \<Rightarrow> string \<Rightarrow> real \<Rightarrow> item" where
  "city_item n c i =
     \<lparr>item_place_id = Some n, item_display_name = c, item_lat = ''1'', item_lon = ''2'',
      item_type = None, item_class = None, item_importance = Some i,
      item_address = Some (empty_address\<lparr>city := Some c\<rparr>)\<rparr>"

text \<open>
  The user types \<^verbatim>\<open>sp\<close>, and half a second later \<^verbatim>\<open>spr\<close>; both searches are sent; the
  response to the second arrives before the response to the first.
\<close>

definition stale_events :: "(nat \<times> event) list" where
  "stale_events =
     [(0, Input_change ''sp''), (500, Input_change ''spr''), (900, Tick),
      (950, Fetch_settled 1 (Response 200 (Json_array [city_item 2 ''Spring'' 0.5]))),
      (990, Fetch_settled 0 (Response 200 (Json_array [city_item 1 ''Spa'' 0.5])))]"

text \<open>The same two searches, both sent and neither answered yet.\<close>

definition in_flight_events :: "(nat \<times> event) list" where
  "in_flight_events = [(0, Input_change ''sp''), (500, Input_change ''spr''), (900, Tick)]"

text \<open>A search for \<^verbatim>\<open>zz\<close> finds nothing; the user then deletes one letter.\<close>

definition short_query_events :: "(nat \<times> event) list" where
  "short_query_events =
     [(0, Input_change ''zz''), (400, Tick),
      (450, Fetch_settled 0 (Response 200 (Json_array []))),
      (1000, Input_change ''z''), (1400, Tick)]"

text \<open>A search for \<^verbatim>\<open>spring\<close> that returns one candidate, and that candidate.\<close>

definition populate_events :: "(nat \<times> event) list" where
  "populate_events =
     [(0, Input_change ''spring''), (400, Tick),
      (450, Fetch_settled 0 (Response 200 (Json_array [city_item 1 ''Springfield'' 0.5])))]"

definition springfield :: location where
  "springfield = format_item Autocomplete_js (city_item 1 ''Springfield'' 0.5) 0"

text \<open>Three candidates whose city contains \<^verbatim>\<open>spring\<close>, of importance 0.5, 0.9 and 0.1.\<close>

definition springfields :: "location list" where
  "springfields =
     formattedSuggestions Autocomplete_js
       [city_item 1 ''Springfield'' 0.5, city_item 2 ''Springfield'' 0.9,
        city_item 3 ''Springfield'' 0.1]"

section \<open>The address normalizer\<close>

subsection \<open>The country of a location\<close>

text \<open>
  Claim C10.  In \<^verbatim>\<open>Autocomplete.js\<close> the country of a location is the provider's country
  when that is truthy and the literal \<^verbatim>\<open>India\<close> otherwise, so it is never empty; in
  \<^verbatim>\<open>part_000\<close> it is the provider's country as it came, absent when the provider sent
  none.
\<close>

theorem country_defaults_to_India:
  "addr_country (address (format_item Autocomplete_js it index)) =
     (if truthy (country (the_address it)) then country (the_address it) else Some ''India'')
   \<and> truthy (addr_country (address (format_item Autocomplete_js it index)))
   \<and> addr_country (address (format_item Part_000 it index)) = country (the_address it)"
  by (simp add: format_item_def format_address_def or_js_def)

theorem country_defaults_to_India_witness:
  "addr_country (address (format_item Autocomplete_js nameless_item 0)) = Some ''India''
   \<and> addr_country (address (format_item Part_000 nameless_item 0)) = None"
  using country_defaults_to_India [of nameless_item 0]
  by (simp add: nameless_item_def the_address_def empty_address_def)

subsection \<open>The label\<close>

lemma push_if_part: "push_if f parts = parts @ part_of f"
  by (cases f) auto

lemma part_of_falsy: "\<not> truthy f \<Longrightarrow> part_of f = []"
  by (cases f) auto

lemma push_chosen:
  "(if truthy f then push_if f parts else parts) = parts @ part_of f"
  by (simp add: push_if_part part_of_falsy)

text \<open>
  The source compares the state district with \<^verbatim>\<open>address.city || address.town\<close>, the
  specification with the chosen city.  The two tests differ only when the chosen city is
  the village and the state district is that same string.
\<close>

lemma push_state_district:
  assumes "truthy (or_js c t) \<or> \<not> truthy v \<or> sd \<noteq> v"
  shows "(if truthy sd \<and> sd \<noteq> or_js c t then push_if sd parts else parts) =
         parts @ part_of (if truthy (or_js (or_js c t) v) \<and> sd = or_js (or_js c t) v
                          then None else sd)"
proof (cases "truthy sd")
  case False
  then show ?thesis by (simp add: part_of_falsy)
next
  case True
  show ?thesis
  proof (cases "truthy (or_js c t)")
    case ct: True
    then have "or_js (or_js c t) v = or_js c t" by (simp add: or_js_def)
    with True ct show ?thesis by (simp add: push_if_part)
  next
    case ct: False
    then have v: "or_js (or_js c t) v = v" by (simp add: or_js_def)
    from ct True have "sd \<noteq> or_js c t" by auto
    moreover from assms ct have "\<not> (truthy v \<and> sd = v)" by auto
    ultimately show ?thesis using True v by (auto simp: push_if_part)
  qed
qed

lemma address_parts_Part_000:
  assumes "truthy (or_js (city a) (town a)) \<or> \<not> truthy (village a) \<or> state_district a \<noteq> village a"
  shows "address_parts Part_000 a = spec_parts a"
  unfolding address_parts_def spec_parts_def Let_def push_chosen push_state_district [OF assms]
  by (simp add: push_if_part)

lemma address_parts_Autocomplete_js:
  assumes "truthy (or_js (city a) (town a)) \<or> \<not> truthy (village a) \<or> state_district a \<noteq> village a"
  shows "address_parts Autocomplete_js a = spec_parts (pin_address a)"
  unfolding address_parts_def spec_parts_def Let_def push_chosen push_state_district [OF assms]
  by (simp add: push_if_part pin_address_def split: option.splits)

text \<open>
  Claim C3, as stated: the label of the example is \<^verbatim>\<open>Main St, Springfield, X\<close>.  In
  \<^verbatim>\<open>Autocomplete.js\<close> it is \<^verbatim>\<open>Main St, Springfield\<close>: the country is not a part there.
\<close>

theorem label_without_country_counterexample:
  "cleanDisplayName Autocomplete_js main_st_item = ''Main St, Springfield''
   \<and> cleanDisplayName Autocomplete_js main_st_item \<noteq> ''Main St, Springfield, X''"
  by (simp add: cleanDisplayName_def address_parts_def main_st_item_def main_st_address_def
      the_address_def empty_address_def or_js_def)

text \<open>
  Claim C3, amended.  Unless the chosen city is the village and the state district is that
  same string: in \<^verbatim>\<open>part_000\<close> the label is the specification's list joined with a comma
  and a space; in \<^verbatim>\<open>Autocomplete.js\<close> it is that list without the country and with the
  postal code behind \<^verbatim>\<open>PIN: \<close>.  With no part, the label is the provider's display string.
\<close>

theorem label_follows_order:
  assumes "truthy (or_js (city (the_address it)) (town (the_address it)))
           \<or> \<not> truthy (village (the_address it))
           \<or> state_district (the_address it) \<noteq> village (the_address it)"
  shows "cleanDisplayName Part_000 it =
           (if spec_parts (the_address it) \<noteq> [] then join '', '' (spec_parts (the_address it))
            else item_display_name it)
       \<and> cleanDisplayName Autocomplete_js it =
           (if spec_parts (pin_address (the_address it)) \<noteq> []
            then join '', '' (spec_parts (pin_address (the_address it)))
            else item_display_name it)"
  using address_parts_Part_000 [OF assms] address_parts_Autocomplete_js [OF assms]
  by (simp add: cleanDisplayName_def)

theorem label_follows_order_witness:
  "cleanDisplayName Part_000 main_st_item = ''Main St, Springfield, X''
   \<and> cleanDisplayName Autocomplete_js main_st_item = ''Main St, Springfield''"
  using label_follows_order [of main_st_item]
  by (simp add: main_st_item_def the_address_def main_st_address_def empty_address_def
      or_js_def spec_parts_def pin_address_def)

subsection \<open>Coordinates\<close>

lemma mset_insert_item: "mset (insert_item p x ys) = add_mset x (mset ys)"
  by (induction ys) auto

lemma mset_foldl_insert:
  "mset (foldl (\<lambda>placed item. insert_item p item placed) acc xs) = mset acc + mset xs"
  by (induction xs arbitrary: acc) (auto simp: mset_insert_item)

lemma mset_sort_js: "mset (sort_js e comparefn xs) = mset xs"
  by (simp add: sort_js_def mset_foldl_insert)

lemma length_sort_js: "length (sort_js e comparefn xs) = length xs"
  using mset_sort_js [of e comparefn xs] by (metis size_mset)

lemma length_formattedSuggestions: "length (formattedSuggestions v data) = length data"
  by (simp add: formattedSuggestions_def)

lemma map_enumerate_snd: "map (\<lambda>(index, it). f it) (enumerate n xs) = map f xs"
  by (induction xs arbitrary: n) auto

lemma lat_formattedSuggestions:
  "map lat (formattedSuggestions v data) = map (\<lambda>it. parseFloat (item_lat it)) data"
  using map_enumerate_snd [of "\<lambda>it. parseFloat (item_lat it)" 0 data]
  by (simp add: formattedSuggestions_def format_item_def comp_def case_prod_unfold)

lemma lon_formattedSuggestions:
  "map lon (formattedSuggestions v data) = map (\<lambda>it. parseFloat (item_lon it)) data"
  using map_enumerate_snd [of "\<lambda>it. parseFloat (item_lon it)" 0 data]
  by (simp add: formattedSuggestions_def format_item_def comp_def case_prod_unfold)

lemma parseFloat_not_known: "parseFloat ''not known'' = NaN"
  by (simp add: parseFloat_def unsigned_literal_def is_whitespace_def is_digit_def)

text \<open>
  Claim C2, as stated: of N candidates, the K whose latitude or longitude is not a finite
  number are left out.  Here N is 2 and K is 1, and both candidates are stored, one with
  the latitude NaN.
\<close>

theorem unparsable_latitude_kept_counterexample:
  "\<not> isFinite (parseFloat (item_lat nameless_item))
   \<and> length (suggestions (searchAddresses_resume Part_000 Earlier_first ''so''
        (Response 200 (Json_array [main_st_item, nameless_item])) initial_widget)) = 2
   \<and> length (suggestions (searchAddresses_resume Autocomplete_js Later_first ''so''
        (Response 200 (Json_array [main_st_item, nameless_item])) initial_widget)) = 2
   \<and> lat (format_item Part_000 nameless_item 1) = NaN"
  by (simp add: searchAddresses_resume_def response_ok_def sortedSuggestions_def length_sort_js
      length_formattedSuggestions nameless_item_def parseFloat_not_known format_item_def)

text \<open>
  Claim C2, amended.  A successful response with N candidates stores N locations: the
  formatted candidates, each once, in ranked order.  No candidate is left out, and each
  coordinate is what \<^verbatim>\<open>parseFloat\<close> makes of the provider's string, finite or not.
\<close>

theorem no_candidate_is_excluded:
  assumes "response_ok status"
  shows "mset (suggestions (searchAddresses_resume v e q (Response status (Json_array data)) w))
           = mset (formattedSuggestions v data)
       \<and> length (suggestions (searchAddresses_resume v e q (Response status (Json_array data)) w))
           = length data
       \<and> map lat (formattedSuggestions v data) = map (\<lambda>it. parseFloat (item_lat it)) data
       \<and> map lon (formattedSuggestions v data) = map (\<lambda>it. parseFloat (item_lon it)) data"
proof (cases "data = []")
  case True
  with assms show ?thesis
    by (simp add: searchAddresses_resume_def formattedSuggestions_def)
next
  case False
  with assms show ?thesis
    by (simp add: searchAddresses_resume_def sortedSuggestions_def mset_sort_js length_sort_js
        length_formattedSuggestions lat_formattedSuggestions lon_formattedSuggestions)
qed

theorem no_candidate_is_excluded_witness:
  "length (suggestions (searchAddresses_resume Part_000 Earlier_first ''so''
        (Response 200 (Json_array [main_st_item, nameless_item])) initial_widget)) = 2
   \<and> map lat (formattedSuggestions Part_000 [main_st_item, nameless_item]) = [Finite 39.8, NaN]"
  using no_candidate_is_excluded [of 200 Part_000 Earlier_first "''so''"
      "[main_st_item, nameless_item]" initial_widget]
  by (simp add: response_ok_def nameless_item_def main_st_item_def parseFloat_not_known
      parseFloat_def unsigned_literal_def is_whitespace_def is_digit_def digits_value_def
      digit_value_def exponent_part_def scale10_def number_value_def)

section \<open>The state machine\<close>

lemmas machine_defs = run_events_def step_def render_def query_effect_def handle_def
  handleInputChange_def handleSuggestionClick_def clearInput_def handleInputFocus_def
  debouncedSearch_def executedFunction_def clearTimeout_def searchAddresses_def
  trim_def is_whitespace_def run_timers.simps fire_def later_def Let_def
  fresh_debouncer_def initial_widget_def searchAddresses_resume_def response_ok_def
  search_failed_def

lemmas ranking_defs = sortedSuggestions_def sort_js_def formattedSuggestions_def format_item_def
  city_item_def enumerate_eq_zip

subsection \<open>Timers and renders\<close>

lemma run_timers_idle: "pending d = [] \<Longrightarrow> run_timers func T (d, st) = (d, st)"
  by (simp add: run_timers.simps)

lemma run_timers_none:
  assumes "\<forall>t \<in> set (pending d). T < fst (snd t)"
  shows "run_timers func T (d, st) = (d, st)"
proof -
  have "filter (\<lambda>t. fst (snd t) \<le> T) (pending d) = []"
    using assms by (auto simp: filter_empty_conv)
  then show ?thesis by (simp add: run_timers.simps)
qed

lemma run_timers_single_due:
  assumes "pending d = [(i, due, a)]" and "timeout d = Some i" and "due \<le> T"
  shows "run_timers func T (d, st) = (d\<lparr>pending := []\<rparr>, func a st)"
  using assms by (simp add: run_timers.simps fire_def later_def clearTimeout_def)

lemma armedD: "armed d due a \<Longrightarrow> \<exists>i. pending d = [(i, due, a)] \<and> timeout d = Some i"
  by (auto simp: armed_def split: list.splits)

text \<open>What the wrapped function leaves alone, the timers leave alone; a list it only
  appends to, they only append to.\<close>

lemma run_timers_keeps:
  assumes "\<And>a s. f (func a s) = f s"
  shows "f (snd (run_timers func T x)) = f (snd x)"
  using assms
proof (induction func T x rule: run_timers.induct)
  case (1 func T x)
  show ?case
  proof (cases "earliest (filter (\<lambda>t. fst (snd t) \<le> T) (pending (fst x)))")
    case None
    then show ?thesis by (simp add: run_timers.simps [of func T x])
  next
    case (Some t)
    have "f (snd (run_timers func T (fire func t x))) = f (snd (fire func t x))"
      using "1.IH" [OF Some] "1.prems" by simp
    also have "\<dots> = f (snd x)"
      using "1.prems" by (simp add: fire_def later_def)
    finally show ?thesis using Some by (simp add: run_timers.simps [of func T x])
  qed
qed

lemma run_timers_extends:
  assumes "\<And>a s. \<exists>ys. g (func a s) = g s @ ys"
  shows "\<exists>ys. g (snd (run_timers func T x)) = g (snd x) @ ys"
  using assms
proof (induction func T x rule: run_timers.induct)
  case (1 func T x)
  show ?case
  proof (cases "earliest (filter (\<lambda>t. fst (snd t) \<le> T) (pending (fst x)))")
    case None
    then show ?thesis by (simp add: run_timers.simps [of func T x])
  next
    case (Some t)
    from "1.IH" [OF Some] "1.prems"
    obtain ys where a: "g (snd (run_timers func T (fire func t x))) = g (snd (fire func t x)) @ ys"
      by blast
    from "1.prems" obtain zs where b: "g (snd (fire func t x)) = g (snd x) @ zs"
      by (auto simp: fire_def later_def)
    from a b Some show ?thesis by (simp add: run_timers.simps [of func T x])
  qed
qed

lemma searchAddresses_fetches: "\<exists>ys. fetches (searchAddresses a s) = fetches s @ ys"
  by (simp add: searchAddresses_def)

lemma searchAddresses_query:
  "query (searchAddresses a s) = query s" "effect_query (searchAddresses a s) = effect_query s"
  by (simp_all add: searchAddresses_def)

lemma resume_cells:
  "query (searchAddresses_resume v e q outcome w) = query w"
  "effect_query (searchAddresses_resume v e q outcome w) = effect_query w"
  "fetches (searchAddresses_resume v e q outcome w) = fetches w"
  by (simp_all add: searchAddresses_resume_def search_failed_def
      split: fetch_outcome.splits body.splits)

lemma resume_success:
  assumes "response_ok status" and "data \<noteq> []"
  shows "suggestions (searchAddresses_resume v e q (Response status (Json_array data)) w)
           = sortedSuggestions v e q (formattedSuggestions v data)"
  using assms by (simp add: searchAddresses_resume_def)

text \<open>The rest of \<^verbatim>\<open>searchAddresses\<close> reads none of the candidates, the error or the flags
  it writes: what a response that settled before has stored makes no difference.\<close>

lemma resume_overwrites:
  "suggestions (searchAddresses_resume v e qA oA (searchAddresses_resume v e qB oB w))
     = suggestions (searchAddresses_resume v e qA oA w)"
  by (simp add: searchAddresses_resume_def search_failed_def
      split: fetch_outcome.splits body.splits)

text \<open>In a rendered state, the passing of time is the running of the timers.\<close>

lemma step_Tick:
  assumes "effect_query w = query w"
  shows "step v e (T, Tick) (d, w) = run_timers searchAddresses T (d, w)"
proof -
  let ?y = "run_timers searchAddresses T (d, w)"
  have "query (snd ?y) = effect_query (snd ?y)"
    using assms run_timers_keeps [of query searchAddresses T "(d, w)"]
      run_timers_keeps [of effect_query searchAddresses T "(d, w)"]
    by (simp add: searchAddresses_query)
  then show ?thesis by (simp add: step_def handle_def render_def)
qed

text \<open>In a rendered state, a fetch that settles runs the rest of \<^verbatim>\<open>searchAddresses\<close> for
  the query it was sent with, on the state the timers due by then have left.\<close>

lemma step_settled:
  assumes "effect_query w = query w" and "k < length (fetches w)"
  shows "\<exists>w' ys. snd (step v e (t, Fetch_settled k outcome) (d, w))
             = searchAddresses_resume v e (fetches w ! k) outcome w'
           \<and> query w' = query w \<and> effect_query w' = effect_query w
           \<and> fetches w' = fetches w @ ys"
proof -
  let ?y = "run_timers searchAddresses t (d, w)"
  have q: "query (snd ?y) = query w" and eq: "effect_query (snd ?y) = effect_query w"
    using run_timers_keeps [of query searchAddresses t "(d, w)"]
      run_timers_keeps [of effect_query searchAddresses t "(d, w)"]
    by (simp_all add: searchAddresses_query)
  obtain ys where f: "fetches (snd ?y) = fetches w @ ys"
    using run_timers_extends [of fetches searchAddresses t "(d, w)"] searchAddresses_fetches
    by auto
  have nth: "fetches (snd ?y) ! k = fetches w ! k"
    using f assms(2) by (simp add: nth_append)
  have "snd (step v e (t, Fetch_settled k outcome) (d, w))
      = searchAddresses_resume v e (fetches w ! k) outcome (snd ?y)"
    using assms q eq f nth
    by (simp add: step_def handle_def render_def resume_cells Let_def)
  with q eq f show ?thesis by blast
qed

subsection \<open>Responses that arrive out of order\<close>

text \<open>
  Claim C1, as stated: a response that is not the one of the latest search is discarded.
  The search for \<^verbatim>\<open>sp\<close> is sent before the search for \<^verbatim>\<open>spr\<close> and answered after it;
  the candidates stored at the end are those of \<^verbatim>\<open>sp\<close> (place 1), not those of
  \<^verbatim>\<open>spr\<close> (place 2).
\<close>

theorem stale_response_overwrites_counterexample:
  "fetches (snd (run_events Part_000 Earlier_first stale_events (fresh_debouncer, initial_widget)))
     = [''sp'', ''spr'']
   \<and> map loc_id (suggestions (snd (run_events Part_000 Earlier_first stale_events
        (fresh_debouncer, initial_widget)))) = [Place_id 1]
   \<and> map loc_id (sortedSuggestions Part_000 Earlier_first ''spr''
        (formattedSuggestions Part_000 [city_item 2 ''Spring'' 0.5])) = [Place_id 2]"
  by (simp add: machine_defs stale_events_def ranking_defs)

text \<open>
  Claim C1, amended.  A search carries no token, and no response is discarded.  Take a
  rendered state with two fetches in flight, A sent before B (A stands earlier in the
  list of provider calls).  When the response to B settles first, whatever it is, and the
  response to A settles after it and is a successful one (any status from 200 to 299) with
  at least one candidate, the candidates stored at the end are those of A, ranked for the
  query of A.
\<close>

theorem last_settled_response_wins:
  assumes "kA < kB" and "kB < length (fetches w)" and "effect_query w = query w"
    and "response_ok status" and "data \<noteq> []"
  shows "suggestions (snd (step v e (tA, Fetch_settled kA (Response status (Json_array data)))
            (step v e (tB, Fetch_settled kB outcomeB) (d, w))))
         = sortedSuggestions v e (fetches w ! kA) (formattedSuggestions v data)"
proof -
  obtain d1 w1 where s1: "step v e (tB, Fetch_settled kB outcomeB) (d, w) = (d1, w1)"
    by (cases "step v e (tB, Fetch_settled kB outcomeB) (d, w)")
  from step_settled [OF assms(3,2), of v e tB outcomeB d] s1
  obtain w' ys where w1: "w1 = searchAddresses_resume v e (fetches w ! kB) outcomeB w'"
    and c: "query w' = query w" "effect_query w' = effect_query w" "fetches w' = fetches w @ ys"
    by auto
  have r: "effect_query w1 = query w1" and f1: "fetches w1 = fetches w @ ys"
    using w1 c assms(3) by (simp_all add: resume_cells)
  have k: "kA < length (fetches w1)" using f1 assms(1,2) by simp
  from step_settled [OF r k, of v e tA "Response status (Json_array data)" d1]
  obtain w2 where "snd (step v e (tA, Fetch_settled kA (Response status (Json_array data))) (d1, w1))
      = searchAddresses_resume v e (fetches w1 ! kA) (Response status (Json_array data)) w2"
    by auto
  moreover have "fetches w1 ! kA = fetches w ! kA"
    using f1 assms(1,2) by (simp add: nth_append)
  ultimately show ?thesis
    using resume_success [OF assms(4,5)] by (simp add: s1)
qed

theorem last_settled_response_wins_witness:
  "fetches (snd (run_events Part_000 Earlier_first in_flight_events (fresh_debouncer, initial_widget)))
     = [''sp'', ''spr'']
   \<and> map loc_id (suggestions (snd
        (step Part_000 Earlier_first
           (990, Fetch_settled 0 (Response 201 (Json_array [city_item 1 ''Spa'' 0.5])))
           (step Part_000 Earlier_first
              (950, Fetch_settled 1 (Response 200 (Json_array [city_item 2 ''Spring'' 0.5])))
              (run_events Part_000 Earlier_first in_flight_events
                 (fresh_debouncer, initial_widget))))))
     = [Place_id 1]"
  using last_settled_response_wins [of 0 1
      "snd (run_events Part_000 Earlier_first in_flight_events (fresh_debouncer, initial_widget))"
      201 "[city_item 1 ''Spa'' 0.5]" Part_000 Earlier_first 990 950
      "Response 200 (Json_array [city_item 2 ''Spring'' 0.5])"
      "fst (run_events Part_000 Earlier_first in_flight_events (fresh_debouncer, initial_widget))"]
  by (simp add: machine_defs in_flight_events_def ranking_defs)

subsection \<open>Queries shorter than two characters\<close>

text \<open>
  Claim C7, as stated: after a search for a query of length below 2 the state is Idle.
  The search for \<^verbatim>\<open>zz\<close> leaves the message that nothing was found; the search for \<^verbatim>\<open>z\<close>
  then calls no provider, and the message and the query are still there.
\<close>

theorem short_query_leaves_error_counterexample:
  "fetches (snd (run_events Part_000 Earlier_first short_query_events (fresh_debouncer, initial_widget)))
     = [''zz'']
   \<and> query (snd (run_events Part_000 Earlier_first short_query_events (fresh_debouncer, initial_widget)))
     = ''z''
   \<and> error (snd (run_events Part_000 Earlier_first short_query_events (fresh_debouncer, initial_widget)))
     = ''No locations found. Try a different search term.''
   \<and> \<not> idle (snd (run_events Part_000 Earlier_first short_query_events (fresh_debouncer, initial_widget)))"
  by (simp add: machine_defs short_query_events_def idle_def)

lemma step_input_short:
  assumes "pending d = []" and "length (trim val) < 2"
  shows "fetches (snd (step v e (T, Tick) (step v e (now, Input_change val) (d, w)))) = fetches w"
proof -
  obtain d1 w1 where s1: "step v e (now, Input_change val) (d, w) = (d1, w1)"
    by (cases "step v e (now, Input_change val) (d, w)")
  have f: "fetches w1 = fetches w" and r: "effect_query w1 = query w1"
    and p: "pending d1 = [] \<or> armed d1 (now + 400) (trim val)"
    using s1 assms(1)
    by (auto simp: step_def run_timers_idle handle_def handleInputChange_def render_def
        query_effect_def debouncedSearch_def executedFunction_def clearTimeout_def armed_def
        Let_def split: if_splits)
  have tick: "step v e (T, Tick) (d1, w1) = run_timers searchAddresses T (d1, w1)"
    by (rule step_Tick [OF r])
  from p show ?thesis
  proof
    assume "pending d1 = []"
    then show ?thesis by (simp add: s1 tick run_timers_idle f)
  next
    assume "armed d1 (now + 400) (trim val)"
    from armedD [OF this] obtain i where pd: "pending d1 = [(i, now + 400, trim val)]"
      and t: "timeout d1 = Some i" by auto
    show ?thesis
    proof (cases "T < now + 400")
      case True
      then have "run_timers searchAddresses T (d1, w1) = (d1, w1)"
        using pd by (intro run_timers_none) simp
      then show ?thesis by (simp add: s1 tick f)
    next
      case False
      then have le: "now + 400 \<le> T" by simp
      have "run_timers searchAddresses T (d1, w1)
          = (d1\<lparr>pending := []\<rparr>, searchAddresses (trim val) w1)"
        by (rule run_timers_single_due [OF pd t le])
      then show ?thesis using assms(2) by (simp add: s1 tick f searchAddresses_def)
    qed
  qed
qed

text \<open>
  Claim C7, amended.  For a query of length below 2, \<^verbatim>\<open>searchAddresses\<close> empties the
  candidates and hides the list, and changes no other cell.  It calls no provider and
  raises no error and no loading flag, where a search that finds nothing sets a message;
  the query, the selection and an error that was showing stay as they were.  So the
  state afterwards is Idle exactly when the query is empty, nothing is selected and no
  error is showing: an Idle state stays Idle, and a state can come back to Idle only by
  losing its candidates.  Typing a text whose trimmed length is below 2, with no timer
  pending, leads to no provider call at any later time.
\<close>

theorem short_query_skips_search:
  assumes "length searchQuery < 2"
  shows "searchAddresses searchQuery w = w\<lparr>suggestions := [], showSuggestions := False\<rparr>
       \<and> fetches (searchAddresses searchQuery w) = fetches w
       \<and> suggestions (searchAddresses searchQuery w) = []
       \<and> \<not> showSuggestions (searchAddresses searchQuery w)
       \<and> loading (searchAddresses searchQuery w) = loading w
       \<and> query (searchAddresses searchQuery w) = query w
       \<and> selectedLocation (searchAddresses searchQuery w) = selectedLocation w
       \<and> error (searchAddresses searchQuery w) = error w
       \<and> (idle w \<longrightarrow> idle (searchAddresses searchQuery w))
       \<and> idle (searchAddresses searchQuery w)
           = (query w = [] \<and> selectedLocation w = None \<and> error w = [])
       \<and> error (searchAddresses_resume v e q (Response 200 (Json_array [])) w)
           = ''No locations found. Try a different search term.''
       \<and> (pending d = [] \<and> length (trim val) < 2 \<longrightarrow>
            fetches (snd (step v e (T, Tick) (step v e (now, Input_change val) (d, w))))
              = fetches w)"
  using assms step_input_short [of d val v e T now w]
  by (auto simp add: searchAddresses_def searchAddresses_resume_def response_ok_def idle_def)

theorem short_query_skips_search_witness:
  "fetches (searchAddresses ''z'' initial_widget) = []
   \<and> idle (searchAddresses ''z'' initial_widget)
   \<and> fetches (snd (step Part_000 Earlier_first (1400, Tick)
        (step Part_000 Earlier_first (1000, Input_change '' z'') (fresh_debouncer, initial_widget))))
      = []"
  using short_query_skips_search [where searchQuery = "''z''" and w = initial_widget
      and d = fresh_debouncer and val = "'' z''" and v = Part_000 and e = Earlier_first
      and T = 1400 and now = 1000]
  by (simp add: initial_widget_def idle_def fresh_debouncer_def trim_def is_whitespace_def)

subsection \<open>Clearing the input\<close>

text \<open>
  Claim C8.  From every state, at any time, the clear action and the change of the input
  to the empty string end in Idle: no query, no candidates, nothing selected, no error.
\<close>

theorem clear_returns_to_idle:
  "idle (snd (step v e (now, Clear_input) x)) \<and> idle (snd (step v e (now, Input_change []) x))"
  by (simp add: step_def render_def query_effect_def handle_def clearInput_def
      handleInputChange_def idle_def trim_def Let_def)

theorem clear_returns_to_idle_witness:
  "idle (snd (step Part_000 Earlier_first (2000, Clear_input)
      (run_events Part_000 Earlier_first stale_events (fresh_debouncer, initial_widget))))"
  using clear_returns_to_idle [of Part_000 Earlier_first 2000
      "run_events Part_000 Earlier_first stale_events (fresh_debouncer, initial_widget)"]
  by simp

subsection \<open>Selecting a candidate\<close>

text \<open>
  Claim C6, as stated: selecting a candidate dispatches no new search.  After the search
  for \<^verbatim>\<open>spring\<close> has stored its one candidate, the user picks it; 400 time units later
  the provider is called for the label of the candidate.
\<close>

theorem selection_starts_search_counterexample:
  "suggestions (snd (run_events Autocomplete_js Earlier_first populate_events
      (fresh_debouncer, initial_widget))) = [springfield]
   \<and> fetches (snd (run_events Autocomplete_js Earlier_first
        (populate_events @ [(1000, Suggestion_click springfield), (1400, Tick)])
        (fresh_debouncer, initial_widget))) = [''spring'', ''Springfield'']"
  by (simp add: machine_defs populate_events_def ranking_defs springfield_def
      cleanDisplayName_def address_parts_def the_address_def empty_address_def or_js_def)

lemma step_click:
  assumes "pending d = []" and "effect_query w = query w"
    and "clean_display_name c \<noteq> query w" and "trim (clean_display_name c) \<noteq> []"
  shows "step v e (now, Suggestion_click c) (d, w) =
      (d\<lparr>timeout := Some (next_id d),
          pending := [(next_id d, now + 400, trim (clean_display_name c))],
          next_id := Suc (next_id d)\<rparr>,
       w\<lparr>query := clean_display_name c, selectedLocation := Some c, showSuggestions := False,
         error := [], effect_query := clean_display_name c\<rparr>)"
  using assms
  by (simp add: step_def run_timers_idle handle_def handleSuggestionClick_def render_def
      query_effect_def debouncedSearch_def executedFunction_def clearTimeout_def Let_def)

text \<open>
  Claim C6, amended.  For every candidate and every state, selecting it sets the selection
  to that location and the query to its label and hides the list, and the click handler
  leaves the candidates and the list of provider calls as they are.  When no timer was
  pending, the step as a whole leaves the candidates as they are if the label is not
  blank, and empties them if the label is blank and is not the query that was there.
  The new query runs the effect, which arms the debouncer: when no timer was pending, the
  label is not the query that was there, and its trimmed length is at least 2, the
  provider has not been called at any time before 400 units after the selection, and from
  then on has been called once more, for the trimmed label.
\<close>

theorem selection_rearms_debounce:
  "selectedLocation (snd (step v e (now, Suggestion_click c) (d, w))) = Some c
   \<and> query (snd (step v e (now, Suggestion_click c) (d, w))) = clean_display_name c
   \<and> \<not> showSuggestions (snd (step v e (now, Suggestion_click c) (d, w)))
   \<and> suggestions (handleSuggestionClick c w) = suggestions w
   \<and> fetches (handleSuggestionClick c w) = fetches w
   \<and> (pending d = [] \<and> trim (clean_display_name c) \<noteq> [] \<longrightarrow>
        suggestions (snd (step v e (now, Suggestion_click c) (d, w))) = suggestions w
        \<and> fetches (snd (step v e (now, Suggestion_click c) (d, w))) = fetches w)
   \<and> (pending d = [] \<and> effect_query w = query w \<and> clean_display_name c \<noteq> query w
        \<and> trim (clean_display_name c) = [] \<longrightarrow>
        suggestions (snd (step v e (now, Suggestion_click c) (d, w))) = [])
   \<and> (pending d = [] \<and> effect_query w = query w \<and> clean_display_name c \<noteq> query w
        \<and> 2 \<le> length (trim (clean_display_name c)) \<longrightarrow>
        fetches (snd (step v e (T, Tick) (step v e (now, Suggestion_click c) (d, w))))
          = (if T < now + 400 then fetches w else fetches w @ [trim (clean_display_name c)]))"
proof -
  have always: "selectedLocation (snd (step v e (now, Suggestion_click c) (d, w))) = Some c
      \<and> query (snd (step v e (now, Suggestion_click c) (d, w))) = clean_display_name c
      \<and> \<not> showSuggestions (snd (step v e (now, Suggestion_click c) (d, w)))"
    by (simp add: step_def handle_def handleSuggestionClick_def render_def query_effect_def
        Let_def)
  have handler: "suggestions (handleSuggestionClick c w) = suggestions w
      \<and> fetches (handleSuggestionClick c w) = fetches w"
    by (simp add: handleSuggestionClick_def)
  have kept: "suggestions (snd (step v e (now, Suggestion_click c) (d, w))) = suggestions w
      \<and> fetches (snd (step v e (now, Suggestion_click c) (d, w))) = fetches w"
    if "pending d = []" and "trim (clean_display_name c) \<noteq> []"
    using that
    by (simp add: step_def run_timers_idle handle_def handleSuggestionClick_def render_def
        query_effect_def Let_def)
  have blank: "suggestions (snd (step v e (now, Suggestion_click c) (d, w))) = []"
    if "pending d = []" and "effect_query w = query w" and "clean_display_name c \<noteq> query w"
      and "trim (clean_display_name c) = []"
    using that
    by (simp add: step_def run_timers_idle handle_def handleSuggestionClick_def render_def
        query_effect_def Let_def)
  have later_on: "fetches (snd (step v e (T, Tick) (step v e (now, Suggestion_click c) (d, w))))
      = (if T < now + 400 then fetches w else fetches w @ [trim (clean_display_name c)])"
    if h: "pending d = []" "effect_query w = query w" "clean_display_name c \<noteq> query w"
      "2 \<le> length (trim (clean_display_name c))"
  proof -
    from h(4) have ne: "trim (clean_display_name c) \<noteq> []" by auto
    let ?d1 = "d\<lparr>timeout := Some (next_id d),
          pending := [(next_id d, now + 400, trim (clean_display_name c))],
          next_id := Suc (next_id d)\<rparr>"
    let ?w1 = "w\<lparr>query := clean_display_name c, selectedLocation := Some c,
         showSuggestions := False, error := [], effect_query := clean_display_name c\<rparr>"
    have s1: "step v e (now, Suggestion_click c) (d, w) = (?d1, ?w1)"
      by (rule step_click [OF h(1,2,3) ne])
    have tick: "step v e (T, Tick) (?d1, ?w1) = run_timers searchAddresses T (?d1, ?w1)"
      by (rule step_Tick) simp
    show ?thesis
    proof (cases "T < now + 400")
      case True
      then have "run_timers searchAddresses T (?d1, ?w1) = (?d1, ?w1)"
        by (intro run_timers_none) simp
      with True show ?thesis by (simp add: s1 tick)
    next
      case False
      then have le: "now + 400 \<le> T" by simp
      have "run_timers searchAddresses T (?d1, ?w1)
          = (?d1\<lparr>pending := []\<rparr>, searchAddresses (trim (clean_display_name c)) ?w1)"
        by (rule run_timers_single_due [where i = "next_id d" and due = "now + 400"])
          (simp_all add: le)
      with False h(4) show ?thesis by (simp add: s1 tick searchAddresses_def)
    qed
  qed
  from always handler kept blank later_on show ?thesis by blast
qed

theorem selection_rearms_debounce_witness:
  "selectedLocation (snd (step Autocomplete_js Earlier_first (1000, Suggestion_click springfield)
      (run_events Autocomplete_js Earlier_first populate_events (fresh_debouncer, initial_widget))))
     = Some springfield
   \<and> fetches (snd (step Autocomplete_js Earlier_first (1399, Tick)
        (step Autocomplete_js Earlier_first (1000, Suggestion_click springfield)
          (run_events Autocomplete_js Earlier_first populate_events (fresh_debouncer, initial_widget)))))
     = [''spring'']
   \<and> fetches (snd (step Autocomplete_js Earlier_first (1400, Tick)
        (step Autocomplete_js Earlier_first (1000, Suggestion_click springfield)
          (run_events Autocomplete_js Earlier_first populate_events (fresh_debouncer, initial_widget)))))
     = [''spring'', ''Springfield'']"
  using selection_rearms_debounce [of Autocomplete_js Earlier_first 1000 springfield
      "fst (run_events Autocomplete_js Earlier_first populate_events (fresh_debouncer, initial_widget))"
      "snd (run_events Autocomplete_js Earlier_first populate_events (fresh_debouncer, initial_widget))"
      1399]
    selection_rearms_debounce [of Autocomplete_js Earlier_first 1000 springfield
      "fst (run_events Autocomplete_js Earlier_first populate_events (fresh_debouncer, initial_widget))"
      "snd (run_events Autocomplete_js Earlier_first populate_events (fresh_debouncer, initial_widget))"
      1400]
  by (simp add: machine_defs populate_events_def ranking_defs springfield_def
      cleanDisplayName_def address_parts_def the_address_def empty_address_def or_js_def)

section \<open>The debouncer\<close>

text \<open>A call retires the timer of the call before it and arms its own.\<close>

lemma executedFunction_armed:
  assumes "pending d = [] \<or> (\<exists>due' a'. armed d due' a')"
  shows "armed (executedFunction wait now a d) (now + wait) a"
proof -
  from assms consider "pending d = []"
    | i due' a' where "pending d = [(i, due', a')]" and "timeout d = Some i"
    by (auto dest: armedD)
  then show ?thesis
    by cases (simp_all add: executedFunction_def clearTimeout_def armed_def Let_def)
qed

text \<open>During a burst no timer runs: the wrapped state is untouched, and after the last
  call the one pending timer is the last call's.\<close>

lemma run_calls_armed:
  assumes "rapid wait (c # cs)"
    and "pending d = [] \<or> (\<exists>due a. armed d due a \<and> fst c < due)"
  shows "\<exists>d'. run_calls wait func (c # cs) (d, st) = (d', st)
           \<and> armed d' (fst (last (c # cs)) + wait) (snd (last (c # cs)))"
  using assms
proof (induction cs arbitrary: c d)
  case Nil
  have quiet: "run_timers func (fst c) (d, st) = (d, st)"
    using Nil.prems(2) by (intro run_timers_none) (auto dest!: armedD)
  have "armed (executedFunction wait (fst c) (snd c) d) (fst c + wait) (snd c)"
    using Nil.prems(2) by (intro executedFunction_armed) auto
  with quiet show ?case by simp
next
  case (Cons c' cs)
  have quiet: "run_timers func (fst c) (d, st) = (d, st)"
    using Cons.prems(2) by (intro run_timers_none) (auto dest!: armedD)
  let ?d1 = "executedFunction wait (fst c) (snd c) d"
  have a1: "armed ?d1 (fst c + wait) (snd c)"
    using Cons.prems(2) by (intro executedFunction_armed) auto
  from Cons.prems(1) have r: "rapid wait (c' # cs)" and lt: "fst c' < fst c + wait" by auto
  from a1 lt have "pending ?d1 = [] \<or> (\<exists>due a. armed ?d1 due a \<and> fst c' < due)" by blast
  from Cons.IH [OF r this] quiet show ?case by simp
qed

text \<open>The same for any wrapped function and any wait: the function runs once, on the last
  call's arguments, when the wait after the last call is over, and not before.\<close>

lemma run_calls_fires_once:
  assumes "rapid wait calls" and "calls \<noteq> []" and "pending d = []"
  shows "snd (run_timers func T (run_calls wait func calls (d, st)))
           = (if T < fst (last calls) + wait then st else func (snd (last calls)) st)"
proof -
  from assms(2) obtain c cs where calls: "calls = c # cs" by (cases calls) auto
  from run_calls_armed [of wait c cs d func st] assms(1,3) calls
  obtain d' where run: "run_calls wait func calls (d, st) = (d', st)"
    and arm: "armed d' (fst (last calls) + wait) (snd (last calls))" by auto
  from armedD [OF arm] obtain i
    where p: "pending d' = [(i, fst (last calls) + wait, snd (last calls))]"
    and t: "timeout d' = Some i" by auto
  have early: "T < fst (last calls) + wait \<Longrightarrow> run_timers func T (d', st) = (d', st)"
    using p by (intro run_timers_none) auto
  have due: "fst (last calls) + wait \<le> T \<Longrightarrow>
      run_timers func T (d', st) = (d'\<lparr>pending := []\<rparr>, func (snd (last calls)) st)"
    by (rule run_timers_single_due [OF p t])
  show ?thesis
  proof (cases "T < fst (last calls) + wait")
    case True
    with early show ?thesis by (simp add: run)
  next
    case False
    with due show ?thesis by (simp add: run)
  qed
qed

lemma run_searches_run_calls: "run_searches calls x = run_calls 400 searchAddresses calls x"
  by (induction calls arbitrary: x) (simp_all add: debouncedSearch_def)

text \<open>
  Claim C9.  Take a burst of calls of \<^verbatim>\<open>debouncedSearch\<close>, each less than 400 time units
  after the one before, starting with no timer pending.  At any time before 400 units
  after the last call, \<^verbatim>\<open>searchAddresses\<close> has not run, and the one timer pending is the
  last call's.  From then on \<^verbatim>\<open>searchAddresses\<close> has run exactly once, on the argument of
  the last call (one provider call, when that argument has two characters or more), and
  no timer is left.
\<close>

theorem debounce_fires_once:
  assumes "rapid 400 calls" and "calls \<noteq> []" and "pending d = []"
  shows "snd (run_timers searchAddresses T (run_searches calls (d, w)))
           = (if T < fst (last calls) + 400 then w else searchAddresses (snd (last calls)) w)
       \<and> fetches (snd (run_timers searchAddresses T (run_searches calls (d, w))))
           = (if T < fst (last calls) + 400 \<or> length (snd (last calls)) < 2 then fetches w
              else fetches w @ [snd (last calls)])
       \<and> (if T < fst (last calls) + 400
           then armed (fst (run_timers searchAddresses T (run_searches calls (d, w))))
                  (fst (last calls) + 400) (snd (last calls))
           else pending (fst (run_timers searchAddresses T (run_searches calls (d, w)))) = [])"
proof -
  from assms(2) obtain c cs where calls: "calls = c # cs" by (cases calls) auto
  from run_calls_armed [of 400 c cs d searchAddresses w] assms(1,3) calls
  obtain d' where run: "run_searches calls (d, w) = (d', w)"
    and arm: "armed d' (fst (last calls) + 400) (snd (last calls))"
    by (auto simp: run_searches_run_calls)
  from armedD [OF arm] obtain i
    where p: "pending d' = [(i, fst (last calls) + 400, snd (last calls))]"
    and t: "timeout d' = Some i" by auto
  have early: "T < fst (last calls) + 400 \<Longrightarrow> run_timers searchAddresses T (d', w) = (d', w)"
    using p by (intro run_timers_none) auto
  have due: "fst (last calls) + 400 \<le> T \<Longrightarrow>
      run_timers searchAddresses T (d', w)
        = (d'\<lparr>pending := []\<rparr>, searchAddresses (snd (last calls)) w)"
    by (rule run_timers_single_due [OF p t])
  show ?thesis
  proof (cases "T < fst (last calls) + 400")
    case True
    with early arm show ?thesis by (simp add: run)
  next
    case False
    with due show ?thesis by (simp add: run searchAddresses_def)
  qed
qed

theorem debounce_fires_once_witness:
  "fetches (snd (run_timers searchAddresses 1000
      (run_searches [(0, ''sp''), (150, ''spr''), (300, ''spri'')] (fresh_debouncer, initial_widget))))
     = [''spri'']
   \<and> fetches (snd (run_timers searchAddresses 699
      (run_searches [(0, ''sp''), (150, ''spr''), (300, ''spri'')] (fresh_debouncer, initial_widget))))
     = []"
  using debounce_fires_once [of "[(0, ''sp''), (150, ''spr''), (300, ''spri'')]" fresh_debouncer
      1000 initial_widget]
    debounce_fires_once [of "[(0, ''sp''), (150, ''spr''), (300, ''spri'')]" fresh_debouncer
      699 initial_widget]
  by (simp add: fresh_debouncer_def initial_widget_def searchAddresses_def
      del: run_searches.simps)

section \<open>The ranker\<close>

lemmas string_defs = toLowerCase_def lower_char_def char_of_eq_iff

subsection \<open>Ranking by importance alone\<close>

text \<open>For the comparator of \<^verbatim>\<open>part_000\<close> both engines ask the same question: is the
  element being inserted more important than the one before it?\<close>

lemma moves_before_importance:
  "moves_before e compare_importance = (\<lambda>item prev. importance prev < importance item)"
  by (cases e) (auto simp: moves_before_def compare_importance_def fun_eq_iff)

lemma engines_agree_Part_000:
  "sortedSuggestions Part_000 Earlier_first q xs = sortedSuggestions Part_000 Later_first q xs"
  by (simp add: sortedSuggestions_def comparator_def sort_js_def moves_before_importance)

lemma set_insert_item: "set (insert_item p x ys) = insert x (set ys)"
  by (induction ys) auto

lemma sorted_insert_item:
  assumes "sorted (map importance placed)"
  shows "sorted (map importance
           (insert_item (\<lambda>item prev. importance prev < importance item) x placed))"
  using assms by (induction placed) (auto simp: set_insert_item)

lemma sorted_foldl_insert:
  assumes "sorted (map importance placed)"
  shows "sorted (map importance
           (foldl (\<lambda>placed item.
                     insert_item (\<lambda>item prev. importance prev < importance item) item placed)
              placed xs))"
  using assms by (induction xs arbitrary: placed) (auto simp: sorted_insert_item)

lemma insert_item_stays:
  assumes "\<forall>p \<in> set placed. importance x \<le> importance p"
  shows "insert_item (\<lambda>item prev. importance prev < importance item) x placed = x # placed"
  using assms by (cases placed) auto

lemma foldl_insert_sorted:
  assumes "sorted (map importance (rev xs @ placed))"
  shows "foldl (\<lambda>placed item.
                  insert_item (\<lambda>item prev. importance prev < importance item) item placed)
           placed xs = rev xs @ placed"
  using assms
proof (induction xs arbitrary: placed)
  case Nil
  then show ?case by simp
next
  case (Cons x xs)
  from Cons.prems have "\<forall>p \<in> set placed. importance x \<le> importance p"
    by (auto simp: sorted_append)
  then have "insert_item (\<lambda>item prev. importance prev < importance item) x placed = x # placed"
    by (rule insert_item_stays)
  moreover from Cons.prems have "sorted (map importance (rev xs @ x # placed))" by simp
  ultimately show ?case using Cons.IH [of "x # placed"] by simp
qed

lemma sort_js_importance_descending:
  "sorted (map importance (rev (sort_js e compare_importance xs)))"
  using sorted_foldl_insert [of "[]" xs]
  by (simp add: sort_js_def moves_before_importance)

lemma sort_js_importance_idempotent:
  "sort_js e compare_importance (sort_js e compare_importance xs) = sort_js e compare_importance xs"
proof -
  let ?ys = "sort_js e compare_importance xs"
  have "sorted (map importance (rev ?ys @ []))"
    using sort_js_importance_descending [of e xs] by simp
  from foldl_insert_sorted [OF this] show ?thesis
    by (simp add: sort_js_def [of e compare_importance ?ys] moves_before_importance)
qed

text \<open>In \<^verbatim>\<open>part_000\<close> ranking a ranked list changes nothing, on either engine.\<close>

lemma ranking_idempotent_Part_000:
  "sortedSuggestions Part_000 e q (sortedSuggestions Part_000 e q xs)
     = sortedSuggestions Part_000 e q xs"
  by (simp add: sortedSuggestions_def comparator_def sort_js_importance_idempotent)

lemma descending_sorted_wrt:
  "descending xs = sorted_wrt (\<lambda>a b. importance b \<le> importance a) xs"
  by (induction xs rule: descending.induct) (auto intro: order_trans)

text \<open>In \<^verbatim>\<open>part_000\<close> the ranked list is in descending importance, on either engine.\<close>

lemma ranking_descending_Part_000: "descending (sortedSuggestions Part_000 e q xs)"
  using sort_js_importance_descending [of e xs]
  by (simp add: descending_sorted_wrt sortedSuggestions_def comparator_def sorted_map
      sorted_wrt_rev)

subsection \<open>Ranking with the locality comparator\<close>

text \<open>
  What the comparator of \<^verbatim>\<open>Autocomplete.js\<close> makes an insertion do.  An element whose
  city contains the query never looks at an importance: with the earlier element first
  it passes every element whose city does not contain the query and stops at the first
  whose city does; with the later element first it passes every element.
\<close>

lemma moves_before_locality_Earlier:
  "moves_before Earlier_first (compare_locality q) item prev =
     (\<not> city_matches q prev \<and> (city_matches q item \<or> importance prev < importance item))"
  by (auto simp: moves_before_def compare_locality_def city_matches_def Let_def)

lemma moves_before_locality_Later:
  "moves_before Later_first (compare_locality q) item prev =
     (city_matches q item \<or> (\<not> city_matches q prev \<and> importance prev < importance item))"
  by (auto simp: moves_before_def compare_locality_def city_matches_def Let_def)

text \<open>The placed elements, last first: those that do not match (\<open>ns\<close>), then those that
  do (\<open>ms\<close>).\<close>

lemma insert_other:
  assumes "\<not> city_matches q item"
    and "\<forall>n \<in> set ns. \<not> city_matches q n" and "\<forall>m \<in> set ms. city_matches q m"
  shows "insert_item (moves_before e (compare_locality q)) item (ns @ ms) =
         insert_item (\<lambda>item prev. importance prev < importance item) item ns @ ms"
  using assms(2)
proof (induction ns)
  case Nil
  show ?case using assms(1,3)
    by (cases ms; cases e) (simp_all add: moves_before_locality_Earlier moves_before_locality_Later)
next
  case (Cons n ns)
  then show ?case using assms(1)
    by (cases e) (simp_all add: moves_before_locality_Earlier moves_before_locality_Later)
qed

lemma insert_match_Earlier:
  assumes "city_matches q item"
    and "\<forall>n \<in> set ns. \<not> city_matches q n" and "\<forall>m \<in> set ms. city_matches q m"
  shows "insert_item (moves_before Earlier_first (compare_locality q)) item (ns @ ms) =
         ns @ item # ms"
  using assms(2)
proof (induction ns)
  case Nil
  show ?case using assms(1,3) by (cases ms) (simp_all add: moves_before_locality_Earlier)
next
  case (Cons n ns)
  then show ?case using assms(1) by (simp add: moves_before_locality_Earlier)
qed

lemma insert_match_Later:
  assumes "city_matches q item"
  shows "insert_item (moves_before Later_first (compare_locality q)) item ys = ys @ [item]"
  using assms by (induction ys) (simp_all add: moves_before_locality_Later)

lemma foldl_locality_Earlier:
  assumes "\<forall>n \<in> set ns. \<not> city_matches q n" and "\<forall>m \<in> set ms. city_matches q m"
  shows "foldl (\<lambda>placed item.
                  insert_item (moves_before Earlier_first (compare_locality q)) item placed)
           (ns @ ms) xs =
         foldl (\<lambda>placed item.
                  insert_item (\<lambda>item prev. importance prev < importance item) item placed)
           ns (filter (\<lambda>x. \<not> city_matches q x) xs)
         @ rev (filter (city_matches q) xs) @ ms"
  using assms
proof (induction xs arbitrary: ns ms)
  case Nil
  then show ?case by simp
next
  case (Cons x xs)
  show ?case
  proof (cases "city_matches q x")
    case True
    from Cons.prems True have "\<forall>m \<in> set (x # ms). city_matches q m" by simp
    from Cons.IH [OF Cons.prems(1) this] True Cons.prems show ?thesis
      by (simp add: insert_match_Earlier)
  next
    case False
    let ?ns = "insert_item (\<lambda>item prev. importance prev < importance item) x ns"
    from Cons.prems False have "\<forall>n \<in> set ?ns. \<not> city_matches q n"
      by (simp add: set_insert_item)
    from Cons.IH [OF this Cons.prems(2)] False Cons.prems show ?thesis
      by (simp add: insert_other)
  qed
qed

lemma foldl_locality_Later:
  assumes "\<forall>n \<in> set ns. \<not> city_matches q n" and "\<forall>m \<in> set ms. city_matches q m"
  shows "foldl (\<lambda>placed item.
                  insert_item (moves_before Later_first (compare_locality q)) item placed)
           (ns @ ms) xs =
         foldl (\<lambda>placed item.
                  insert_item (\<lambda>item prev. importance prev < importance item) item placed)
           ns (filter (\<lambda>x. \<not> city_matches q x) xs)
         @ ms @ filter (city_matches q) xs"
  using assms
proof (induction xs arbitrary: ns ms)
  case Nil
  then show ?case by simp
next
  case (Cons x xs)
  show ?case
  proof (cases "city_matches q x")
    case True
    from Cons.prems True have "\<forall>m \<in> set (ms @ [x]). city_matches q m" by simp
    from Cons.IH [OF Cons.prems(1) this] True show ?thesis
      by (simp add: insert_match_Later)
  next
    case False
    let ?ns = "insert_item (\<lambda>item prev. importance prev < importance item) x ns"
    from Cons.prems False have "\<forall>n \<in> set ?ns. \<not> city_matches q n"
      by (simp add: set_insert_item)
    from Cons.IH [OF this Cons.prems(2)] False Cons.prems show ?thesis
      by (simp add: insert_other)
  qed
qed

text \<open>
  The ranked list of \<^verbatim>\<open>Autocomplete.js\<close>, for every input: first the candidates whose
  city contains the query, in the provider's order or in its reverse as the engine has
  it; then the others, ranked by importance as in \<^verbatim>\<open>part_000\<close>.
\<close>

lemma ranking_locality_Earlier:
  "sortedSuggestions Autocomplete_js Earlier_first q xs =
     filter (city_matches q) xs
     @ sortedSuggestions Part_000 e q (filter (\<lambda>x. \<not> city_matches q x) xs)"
  using foldl_locality_Earlier [of "[]" q "[]" xs]
  by (simp add: sortedSuggestions_def comparator_def sort_js_def moves_before_importance)

lemma ranking_locality_Later:
  "sortedSuggestions Autocomplete_js Later_first q xs =
     rev (filter (city_matches q) xs)
     @ sortedSuggestions Part_000 e q (filter (\<lambda>x. \<not> city_matches q x) xs)"
  using foldl_locality_Later [of "[]" q "[]" xs]
  by (simp add: sortedSuggestions_def comparator_def sort_js_def moves_before_importance)

lemma set_sortedSuggestions: "set (sortedSuggestions v e q xs) = set xs"
  using mset_sort_js [of e "comparator v q" xs] by (metis sortedSuggestions_def set_mset_mset)

lemma filter_others_ranked:
  "filter (city_matches q)
     (sortedSuggestions v e q (filter (\<lambda>x. \<not> city_matches q x) xs)) = []"
  "filter (\<lambda>x. \<not> city_matches q x)
     (sortedSuggestions v e q (filter (\<lambda>x. \<not> city_matches q x) xs))
     = sortedSuggestions v e q (filter (\<lambda>x. \<not> city_matches q x) xs)"
  by (simp_all add: filter_empty_conv filter_id_conv set_sortedSuggestions)

text \<open>Ranking the ranked list again: with the earlier element first nothing changes; with
  the later element first the matching candidates are reversed once more.\<close>

lemma ranking_idempotent_Earlier_first:
  "sortedSuggestions Autocomplete_js Earlier_first q
     (sortedSuggestions Autocomplete_js Earlier_first q xs)
     = sortedSuggestions Autocomplete_js Earlier_first q xs"
  by (simp add: ranking_locality_Earlier [where e = Earlier_first] filter_others_ranked
      ranking_idempotent_Part_000)

lemma ranking_twice_Later_first:
  "sortedSuggestions Autocomplete_js Later_first q
     (sortedSuggestions Autocomplete_js Later_first q xs)
     = filter (city_matches q) xs
       @ sortedSuggestions Part_000 Later_first q (filter (\<lambda>x. \<not> city_matches q x) xs)"
  by (simp add: ranking_locality_Later [where e = Later_first] filter_others_ranked
      ranking_idempotent_Part_000)

text \<open>
  Claim C4, at three candidates whose city all contain the query, of importance 0.5, 0.9
  and 0.1 in the provider's order.  An engine that passes the earlier element first
  leaves them as they came, an engine that passes the later element first reverses them;
  neither order is by descending importance.
\<close>

theorem matching_cities_keep_engine_order:
  "map loc_id (sortedSuggestions Autocomplete_js Earlier_first ''spring'' springfields)
     = [Place_id 1, Place_id 2, Place_id 3]
   \<and> map loc_id (sortedSuggestions Autocomplete_js Later_first ''spring'' springfields)
     = [Place_id 3, Place_id 2, Place_id 1]
   \<and> map importance (sortedSuggestions Autocomplete_js Earlier_first ''spring'' springfields)
     = [0.5, 0.9, 0.1]
   \<and> map importance (sortedSuggestions Autocomplete_js Later_first ''spring'' springfields)
     = [0.1, 0.9, 0.5]
   \<and> \<not> descending (sortedSuggestions Autocomplete_js Earlier_first ''spring'' springfields)
   \<and> \<not> descending (sortedSuggestions Autocomplete_js Later_first ''spring'' springfields)
   \<and> compare_locality ''spring'' (springfields ! 0) (springfields ! 1) = - 1
   \<and> compare_locality ''spring'' (springfields ! 1) (springfields ! 0) = - 1"
  by (simp add: springfields_def ranking_defs comparator_def compare_locality_def
      moves_before_def format_address_def the_address_def or_js_def empty_address_def string_defs)

text \<open>
  Claim C5, at the same three candidates, on an engine that passes the later element
  first: ranking reverses them, and ranking the result reverses them back, so the second
  ranking does not return the first.
\<close>

theorem ranking_twice_differs:
  "sortedSuggestions Autocomplete_js Later_first ''spring'' springfields = rev springfields
   \<and> sortedSuggestions Autocomplete_js Later_first ''spring''
        (sortedSuggestions Autocomplete_js Later_first ''spring'' springfields) = springfields
   \<and> springfields \<noteq> rev springfields"
  by (simp add: springfields_def ranking_defs comparator_def compare_locality_def
      moves_before_def format_address_def the_address_def or_js_def empty_address_def string_defs)

end
